theory Spec2Isabelle
  imports Complex_Main "HOL-Library.Sublist" "HOL-Library.AList" "HOL-Library.List_Lexorder"
begin

section \<open>Text: code points, character classes, white space\<close>

text \<open>
  A Python \<open>str\<close> is a sequence of Unicode code points, so a text is a list of
  natural numbers; \<open>ustr\<close> reads an ASCII literal as such a text. White space is the table
  of \<open>str.isspace\<close> (which \<open>\s\<close> and \<open>strip\<close> share). Digits, letters and case
  conversion are those of the ASCII range: a code point outside it counts as a caseless
  character that is neither a digit nor a word character, which is what the four currency
  symbols are.
\<close>

type_synonym uchar = nat
type_synonym ustring = "nat list"

definition ustr :: "string \<Rightarrow> ustring" where
  "ustr s = map of_char s"

definition is_space :: "uchar \<Rightarrow> bool" where
  "is_space c \<longleftrightarrow>
     (9 \<le> c \<and> c \<le> 13) \<or> (28 \<le> c \<and> c \<le> 32) \<or> c = 133 \<or> c = 160 \<or> c = 5760 \<or>
     (8192 \<le> c \<and> c \<le> 8202) \<or> c = 8232 \<or> c = 8233 \<or> c = 8239 \<or> c = 8287 \<or> c = 12288"

definition is_digit :: "uchar \<Rightarrow> bool" where
  "is_digit c \<longleftrightarrow> 48 \<le> c \<and> c \<le> 57"

definition is_upper :: "uchar \<Rightarrow> bool" where
  "is_upper c \<longleftrightarrow> 65 \<le> c \<and> c \<le> 90"

definition is_lower :: "uchar \<Rightarrow> bool" where
  "is_lower c \<longleftrightarrow> 97 \<le> c \<and> c \<le> 122"

definition is_word :: "uchar \<Rightarrow> bool" where
  "is_word c \<longleftrightarrow> is_digit c \<or> is_upper c \<or> is_lower c \<or> c = 95"

definition to_upper :: "uchar \<Rightarrow> uchar" where
  "to_upper c = (if is_lower c then c - 32 else c)"

definition to_lower :: "uchar \<Rightarrow> uchar" where
  "to_lower c = (if is_upper c then c + 32 else c)"

definition upper :: "ustring \<Rightarrow> ustring" where
  "upper s = map to_upper s"

definition lower :: "ustring \<Rightarrow> ustring" where
  "lower s = map to_lower s"

text \<open>\<open>s.strip()\<close>: white space removed at both ends.\<close>

definition strip :: "ustring \<Rightarrow> ustring" where
  "strip s = rev (dropWhile is_space (rev (dropWhile is_space s)))"

text \<open>\<open>p in s\<close> for strings: \<open>p\<close> occurs as a contiguous block of \<open>s\<close>.\<close>

fun contains :: "ustring \<Rightarrow> ustring \<Rightarrow> bool" where
  "contains p [] \<longleftrightarrow> p = []"
| "contains p (c # cs) \<longleftrightarrow> prefix p (c # cs) \<or> contains p cs"

text \<open>
  \<open>re.sub(r"\s+", " ", s)\<close>: every maximal run of white space becomes one space.
\<close>

function collapse :: "ustring \<Rightarrow> ustring" where
  "collapse [] = []"
| "collapse (c # cs) =
     (if is_space c then 32 # collapse (dropWhile is_space cs) else c # collapse cs)"
  by pat_completeness auto
termination
  by (relation "measure length") (auto simp: le_imp_less_Suc length_dropWhile_le)

text \<open>
  \<open>clean_spaces(x)\<close>. The argument is \<open>None\<close> for Python's \<open>None\<close> and for a NaN
  float, and \<open>Some s\<close> for any other value, \<open>s\<close> being what \<open>str(x)\<close> returns.
\<close>

definition clean_spaces :: "ustring option \<Rightarrow> ustring" where
  "clean_spaces x = (case x of None \<Rightarrow> [] | Some s \<Rightarrow> strip (collapse s))"

section \<open>Amounts and currencies\<close>

subsection \<open>The numeric token\<close>

text \<open>
  The pattern of \<open>parse_amount_and_currency\<close> is an alternation of two branches,
  \<^verbatim>\<open>[-+]?\d{1,3}(?:,\d{3})*(?:\.\d+)?\<close> and \<^verbatim>\<open>[-+]?\d+(?:\.\d+)?\<close>.
  Each piece below returns what it consumes and what it leaves. All quantifiers are greedy,
  and everything after the leading digits may match the empty string, so a branch succeeds
  exactly when a digit follows the optional sign and no backtracking ever shortens a match.
  The alternation is ordered: the second branch is tried only where the first fails.
\<close>

definition opt_sign :: "ustring \<Rightarrow> ustring \<times> ustring" where
  "opt_sign s = (case s of [] \<Rightarrow> ([], [])
     | c # r \<Rightarrow> if c = 45 \<or> c = 43 then ([c], r) else ([], s))"

definition digits_1_3 :: "ustring \<Rightarrow> ustring \<times> ustring" where
  "digits_1_3 s = (let d = takeWhile is_digit (take 3 s) in (d, drop (length d) s))"

definition digits_many :: "ustring \<Rightarrow> ustring \<times> ustring" where
  "digits_many s = (takeWhile is_digit s, dropWhile is_digit s)"

fun comma_groups :: "ustring \<Rightarrow> ustring \<times> ustring" where
  "comma_groups (c # d1 # d2 # d3 # r) =
     (if c = 44 \<and> is_digit d1 \<and> is_digit d2 \<and> is_digit d3
      then (case comma_groups r of (g, r') \<Rightarrow> (c # d1 # d2 # d3 # g, r'))
      else ([], c # d1 # d2 # d3 # r))"
| "comma_groups s = ([], s)"

definition opt_fraction :: "ustring \<Rightarrow> ustring \<times> ustring" where
  "opt_fraction s = (case s of
       c # d # r \<Rightarrow>
         if c = 46 \<and> is_digit d then (c # d # takeWhile is_digit r, dropWhile is_digit r)
         else ([], s)
     | _ \<Rightarrow> ([], s))"

definition grouped_number :: "ustring \<Rightarrow> (ustring \<times> ustring) option" where
  "grouped_number s =
     (case opt_sign s of (sg, r0) \<Rightarrow>
      case digits_1_3 r0 of (d, r1) \<Rightarrow>
        if d = [] then None
        else case comma_groups r1 of (g, r2) \<Rightarrow>
             case opt_fraction r2 of (f, r3) \<Rightarrow> Some (sg @ d @ g @ f, r3))"

definition plain_number :: "ustring \<Rightarrow> (ustring \<times> ustring) option" where
  "plain_number s =
     (case opt_sign s of (sg, r0) \<Rightarrow>
      case digits_many r0 of (d, r1) \<Rightarrow>
        if d = [] then None
        else case opt_fraction r1 of (f, r2) \<Rightarrow> Some (sg @ d @ f, r2))"

definition match_number :: "ustring \<Rightarrow> (ustring \<times> ustring) option" where
  "match_number s = (case grouped_number s of Some m \<Rightarrow> Some m | None \<Rightarrow> plain_number s)"

lemma opt_sign_split: "opt_sign s = (a, r) \<Longrightarrow> s = a @ r"
  by (auto simp: opt_sign_def split: list.splits if_splits)

lemma digits_1_3_split: "digits_1_3 s = (d, r) \<Longrightarrow> s = d @ r"
proof -
  assume h: "digits_1_3 s = (d, r)"
  have "prefix (takeWhile is_digit (take 3 s)) s"
    by (metis append_take_drop_id prefix_def takeWhile_dropWhile_id append.assoc)
  then show ?thesis
    using h by (auto simp: digits_1_3_def Let_def prefix_def)
qed

lemma comma_groups_split: "comma_groups s = (g, r) \<Longrightarrow> s = g @ r"
  by (induction s arbitrary: g r rule: comma_groups.induct)
     (auto split: if_splits prod.splits)

lemma opt_fraction_split: "opt_fraction s = (f, r) \<Longrightarrow> s = f @ r"
  by (auto simp: opt_fraction_def split: list.splits if_splits)

lemma grouped_number_split: "grouped_number s = Some (tok, r) \<Longrightarrow> s = tok @ r \<and> tok \<noteq> []"
  by (auto simp: grouped_number_def split: prod.splits if_splits
           dest!: opt_sign_split digits_1_3_split comma_groups_split opt_fraction_split)

lemma digits_many_split: "digits_many s = (d, r) \<Longrightarrow> s = d @ r"
  by (auto simp: digits_many_def)

lemma plain_number_split: "plain_number s = Some (tok, r) \<Longrightarrow> s = tok @ r \<and> tok \<noteq> []"
  by (auto simp: plain_number_def split: prod.splits if_splits
           dest!: opt_sign_split digits_many_split opt_fraction_split)

lemma match_number_split: "match_number s = Some (tok, r) \<Longrightarrow> s = tok @ r \<and> tok \<noteq> []"
  by (auto simp: match_number_def split: option.splits
           dest: grouped_number_split plain_number_split)

lemma match_number_shorter: "match_number s = Some (tok, r) \<Longrightarrow> length r < length s"
  using match_number_split [of s tok r] by (cases tok) auto

text \<open>
  \<open>re.findall\<close>: the matches from left to right, each search starting where the match
  before it ended, one character further where nothing matches.
\<close>

function findall_numbers :: "ustring \<Rightarrow> ustring list" where
  "findall_numbers [] = []"
| "findall_numbers (c # cs) =
     (case match_number (c # cs) of
        Some (tok, r) \<Rightarrow> tok # findall_numbers r
      | None \<Rightarrow> findall_numbers cs)"
  by pat_completeness auto
termination
  by (relation "measure length") (auto dest: match_number_shorter)

subsection \<open>Float conversion\<close>

text \<open>
  An amount is the exact value of the decimal literal, a rational number; Python's
  \<open>float\<close> rounds it to the nearest double, which changes neither its sign nor the order of
  two amounts. \<open>py_float\<close> reads a sign, digits and an optional fraction and is \<open>None\<close>
  (Python's \<open>ValueError\<close>) on any other text.
\<close>

definition digits_val :: "ustring \<Rightarrow> nat" where
  "digits_val ds = foldl (\<lambda>a c. 10 * a + (c - 48)) 0 ds"

definition py_float :: "ustring \<Rightarrow> rat option" where
  "py_float s =
     (case opt_sign s of (sg, r) \<Rightarrow>
        let ip = takeWhile is_digit r; r1 = dropWhile is_digit r;
            sgn = (if sg = [45] then - 1 else 1)
        in if ip = [] then None
           else case r1 of
               [] \<Rightarrow> Some (sgn * of_nat (digits_val ip))
             | c # fr \<Rightarrow>
                 if c = 46 \<and> fr \<noteq> [] \<and> list_all is_digit fr
                 then Some (sgn * (of_nat (digits_val ip)
                                   + of_nat (digits_val fr) / 10 ^ length fr))
                 else None)"

subsection \<open>Currency detection\<close>

definition currency_codes :: "ustring list" where
  "currency_codes = map ustr
     [''USD'', ''EUR'', ''INR'', ''GBP'', ''AED'', ''SGD'', ''AUD'', ''CAD'', ''JPY'', ''CNY'']"

text \<open>
  The code pattern at one position, the word boundary before it being the caller's
  business: the first code that the next three characters spell in any case, followed by
  the end of the text or by a character that is not a word character. The result is the
  match in upper case.
\<close>

definition code_at :: "ustring \<Rightarrow> ustring option" where
  "code_at s = find (\<lambda>k. upper (take 3 s) = k \<and>
       (case drop 3 s of [] \<Rightarrow> True | c # _ \<Rightarrow> \<not> is_word c)) currency_codes"

text \<open>\<open>re.search\<close> of the code pattern; \<open>prev\<close> says that a word character precedes.\<close>

fun search_code :: "bool \<Rightarrow> ustring \<Rightarrow> ustring option" where
  "search_code prev [] = None"
| "search_code prev (c # cs) =
     (case (if prev then None else code_at (c # cs)) of
        Some k \<Rightarrow> Some k
      | None \<Rightarrow> search_code (is_word c) cs)"

definition currency_map :: "(uchar \<times> ustring) list" where
  "currency_map = [(8364, ustr ''EUR''), (36, ustr ''USD''), (8377, ustr ''INR''), (163, ustr ''GBP'')]"

definition detect_currency :: "ustring \<Rightarrow> ustring option" where
  "detect_currency t =
     (case search_code False t of
        Some k \<Rightarrow> Some k
      | None \<Rightarrow>
          (case find (\<lambda>c. c \<in> set [8364, 36, 8377, 163]) t of
             Some c \<Rightarrow> map_of currency_map c
           | None \<Rightarrow> None))"

subsection \<open>The discount marks\<close>

text \<open>The pattern \<^verbatim>\<open>\(\s*-\s*\)\<close> at one position, and anywhere in a text.\<close>

definition paren_minus_at :: "ustring \<Rightarrow> bool" where
  "paren_minus_at s = (case s of [] \<Rightarrow> False
     | c # r \<Rightarrow> c = 40 \<and>
        (case dropWhile is_space r of [] \<Rightarrow> False
         | m # r2 \<Rightarrow> m = 45 \<and>
            (case dropWhile is_space r2 of [] \<Rightarrow> False | q # _ \<Rightarrow> q = 41)))"

fun search_paren_minus :: "ustring \<Rightarrow> bool" where
  "search_paren_minus [] \<longleftrightarrow> False"
| "search_paren_minus (c # cs) \<longleftrightarrow> paren_minus_at (c # cs) \<or> search_paren_minus cs"

definition is_discount :: "ustring \<Rightarrow> bool" where
  "is_discount t \<longleftrightarrow>
     contains (ustr ''DISCOUNT'') (upper t) \<or> contains (ustr ''(-)'') t \<or> search_paren_minus t"

subsection \<open>\<open>parse_amount_and_currency\<close>\<close>

definition parse_amount_and_currency :: "ustring option \<Rightarrow> rat option \<times> ustring option" where
  "parse_amount_and_currency x =
     (case x of
        None \<Rightarrow> (None, None)
      | Some _ \<Rightarrow>
          let t = clean_spaces x in
          if t = [] then (None, None)
          else
            let currency = detect_currency t;
                nums = findall_numbers t
            in if nums = [] then (None, currency)
               else case py_float (filter (\<lambda>c. c \<noteq> 44) (last nums)) of
                   None \<Rightarrow> (None, currency)
                 | Some amount \<Rightarrow>
                     (Some (if is_discount t then - \<bar>amount\<bar> else amount), currency))"

section \<open>Dates\<close>

text \<open>
  \<open>datetime.strptime\<close> turns a format into a regular expression, matches it at the start of
  the text, rejects a match that leaves text over, and builds the date, rejecting a day the
  month does not have or the year 0. A format is a list of directives; \<open>alts\<close> lists, for one
  directive at one position, the alternatives of its sub-pattern that match, in the order the
  pattern has them, each with the number it reads and the text it leaves:
  \<^verbatim>\<open>%d\<close> is \<^verbatim>\<open>3[0-1]|[1-2]\d|0[1-9]|[1-9]| [1-9]\<close>, \<^verbatim>\<open>%m\<close> is \<^verbatim>\<open>1[0-2]|0[1-9]|[1-9]\<close>,
  \<^verbatim>\<open>%Y\<close> is \<^verbatim>\<open>\d\d\d\d\<close>, and \<^verbatim>\<open>%b\<close>, \<^verbatim>\<open>%B\<close> are the English month names in any case
  (no name is the beginning of another, so at most one matches).
\<close>

datatype directive = Day | Month | MonthAbbr | MonthFull | Year | Lit uchar

record date =
  year :: nat
  month :: nat
  day :: nat

definition two_digits :: "(uchar \<Rightarrow> bool) \<Rightarrow> (uchar \<Rightarrow> bool) \<Rightarrow> ustring \<Rightarrow> (nat \<times> ustring) list" where
  "two_digits p q s = (case s of
       a # b # r \<Rightarrow> if p a \<and> q b then [(10 * (a - 48) + (b - 48), r)] else []
     | _ \<Rightarrow> [])"

definition digit_1_9 :: "uchar \<Rightarrow> bool" where
  "digit_1_9 c \<longleftrightarrow> 49 \<le> c \<and> c \<le> 57"

definition one_digit :: "ustring \<Rightarrow> (nat \<times> ustring) list" where
  "one_digit s = (case s of [] \<Rightarrow> [] | a # r \<Rightarrow> if digit_1_9 a then [(a - 48, r)] else [])"

definition day_alts :: "ustring \<Rightarrow> (nat \<times> ustring) list" where
  "day_alts s =
     two_digits (\<lambda>a. a = 51) (\<lambda>b. b = 48 \<or> b = 49) s @
     two_digits (\<lambda>a. a = 49 \<or> a = 50) is_digit s @
     two_digits (\<lambda>a. a = 48) digit_1_9 s @
     one_digit s @
     (case s of [] \<Rightarrow> [] | a # r \<Rightarrow> if a = 32 then one_digit r else [])"

definition month_alts :: "ustring \<Rightarrow> (nat \<times> ustring) list" where
  "month_alts s =
     two_digits (\<lambda>a. a = 49) (\<lambda>b. 48 \<le> b \<and> b \<le> 50) s @
     two_digits (\<lambda>a. a = 48) digit_1_9 s @
     one_digit s"

definition year_alts :: "ustring \<Rightarrow> (nat \<times> ustring) list" where
  "year_alts s = (case s of
       a # b # c # d # r \<Rightarrow>
         if is_digit a \<and> is_digit b \<and> is_digit c \<and> is_digit d
         then [(digits_val [a, b, c, d], r)] else []
     | _ \<Rightarrow> [])"

definition month_names :: "string list" where
  "month_names = [''january'', ''february'', ''march'', ''april'', ''may'', ''june'', ''july'',
     ''august'', ''september'', ''october'', ''november'', ''december'']"

definition name_alts :: "ustring list \<Rightarrow> ustring \<Rightarrow> (nat \<times> ustring) list" where
  "name_alts names s =
     concat (map (\<lambda>(i, n). if lower (take (length n) s) = n then [(Suc i, drop (length n) s)] else [])
                 (enumerate 0 names))"

fun alts :: "directive \<Rightarrow> ustring \<Rightarrow> (nat \<times> ustring) list" where
  "alts Day s = day_alts s"
| "alts Month s = month_alts s"
| "alts MonthAbbr s = name_alts (map (ustr \<circ> take 3) month_names) s"
| "alts MonthFull s = name_alts (map ustr month_names) s"
| "alts Year s = year_alts s"
| "alts (Lit c) s = (case s of [] \<Rightarrow> [] | x # r \<Rightarrow> if x = c then [(0, r)] else [])"

fun set_field :: "directive \<Rightarrow> nat \<Rightarrow> date \<Rightarrow> date" where
  "set_field Day v d = d\<lparr>day := v\<rparr>"
| "set_field Year v d = d\<lparr>year := v\<rparr>"
| "set_field (Lit c) v d = d"
| "set_field m v d = d\<lparr>month := v\<rparr>"

fun first_some :: "('a \<Rightarrow> 'b option) \<Rightarrow> 'a list \<Rightarrow> 'b option" where
  "first_some f [] = None"
| "first_some f (x # xs) = (case f x of Some y \<Rightarrow> Some y | None \<Rightarrow> first_some f xs)"

text \<open>
  The match of a whole format, as the backtracking matcher finds it: the first way, in the
  order of the alternatives, to match every directive in turn.
\<close>

primrec regex_match :: "directive list \<Rightarrow> ustring \<Rightarrow> date \<Rightarrow> (date \<times> ustring) option" where
  "regex_match [] = (\<lambda>s d. Some (d, s))"
| "regex_match (x # xs) =
     (\<lambda>s d. first_some (\<lambda>(v, r). regex_match xs r (set_field x v d)) (alts x s))"

definition leap :: "nat \<Rightarrow> bool" where
  "leap y \<longleftrightarrow> y mod 4 = 0 \<and> (y mod 100 \<noteq> 0 \<or> y mod 400 = 0)"

definition days_in_month :: "nat \<Rightarrow> nat \<Rightarrow> nat" where
  "days_in_month y m =
     (if m = 2 then (if leap y then 29 else 28)
      else if m \<in> set [4, 6, 9, 11] then 30 else 31)"

definition valid_date :: "date \<Rightarrow> bool" where
  "valid_date d \<longleftrightarrow> 1 \<le> year d \<and> year d \<le> 9999 \<and> 1 \<le> month d \<and> month d \<le> 12 \<and>
     1 \<le> day d \<and> day d \<le> days_in_month (year d) (month d)"

definition strptime :: "ustring \<Rightarrow> directive list \<Rightarrow> date option" where
  "strptime t f =
     (case regex_match f t \<lparr>year = 1900, month = 1, day = 1\<rparr> of
        None \<Rightarrow> None
      | Some (d, rest) \<Rightarrow> if rest \<noteq> [] then None else if valid_date d then Some d else None)"

text \<open>\<open>strftime("%Y-%m-%d")\<close>, the year written with four digits.\<close>

definition digit_of :: "nat \<Rightarrow> uchar" where
  "digit_of n = 48 + n mod 10"

definition strftime_iso :: "date \<Rightarrow> ustring" where
  "strftime_iso d =
     [digit_of (year d div 1000), digit_of (year d div 100), digit_of (year d div 10),
      digit_of (year d), 45,
      digit_of (month d div 10), digit_of (month d), 45,
      digit_of (day d div 10), digit_of (day d)]"

definition formats :: "directive list list" where
  "formats =
     [[Day, Lit 45, MonthAbbr, Lit 45, Year], [Day, Lit 45, MonthFull, Lit 45, Year],
      [Day, Lit 47, Month, Lit 47, Year], [Day, Lit 45, Month, Lit 45, Year],
      [Year, Lit 45, Month, Lit 45, Day],
      [Month, Lit 47, Day, Lit 47, Year]]"

text \<open>The loop over the formats: the first one that parses returns.\<close>

fun try_formats :: "ustring \<Rightarrow> directive list list \<Rightarrow> ustring option" where
  "try_formats t [] = None"
| "try_formats t (f # fs) =
     (case strptime t f of Some d \<Rightarrow> Some (strftime_iso d) | None \<Rightarrow> try_formats t fs)"

text \<open>\<open>t.split(":", 1)[1].strip()\<close> for a text with a colon.\<close>

definition after_colon :: "ustring \<Rightarrow> ustring" where
  "after_colon t = strip (tl (dropWhile (\<lambda>c. c \<noteq> 58) t))"

definition normalize_date :: "ustring option \<Rightarrow> ustring option" where
  "normalize_date x =
     (case x of
        None \<Rightarrow> None
      | Some _ \<Rightarrow>
          let t = clean_spaces x in
          if t = [] then None
          else try_formats (if 58 \<in> set t then after_colon t else t) formats)"


section \<open>Address blocks\<close>

record address_record =
  name :: "ustring option"
  addr_line1 :: "ustring option"
  addr_line2 :: "ustring option"
  city_state_postal_country :: "ustring option"
  tel :: "ustring option"
  email :: "ustring option"
  site :: "ustring option"
  raw :: "ustring option"

definition empty_address :: address_record where
  "empty_address = \<lparr>name = None, addr_line1 = None, addr_line2 = None,
     city_state_postal_country = None, tel = None, email = None, site = None, raw = None\<rparr>"

text \<open>
  \<open>str.splitlines\<close>: a line ends at a line feed, a carriage return (with the line feed
  after it, if any), a vertical tab, a form feed, a file, group or record separator, a next
  line character, or a Unicode line or paragraph separator; the text after the last of them
  is a line when it is not empty. The first argument is the line being read, backwards.
\<close>

definition is_linebreak :: "uchar \<Rightarrow> bool" where
  "is_linebreak c \<longleftrightarrow> c \<in> set [10, 11, 12, 13, 28, 29, 30, 133, 8232, 8233]"

fun splitlines_from :: "ustring \<Rightarrow> ustring \<Rightarrow> ustring list" where
  "splitlines_from cur [] = (if cur = [] then [] else [rev cur])"
| "splitlines_from cur [c] = (if is_linebreak c then [rev cur] else [rev (c # cur)])"
| "splitlines_from cur (c # d # cs) =
     (if c = 13 \<and> d = 10 then rev cur # splitlines_from [] cs
      else if is_linebreak c then rev cur # splitlines_from [] (d # cs)
      else splitlines_from (c # cur) (d # cs))"

definition splitlines :: "ustring \<Rightarrow> ustring list" where
  "splitlines s = splitlines_from [] s"

text \<open>\<open>line.split(":", 1)[-1].strip() if ":" in line else line\<close>\<close>

definition field_value :: "ustring \<Rightarrow> ustring" where
  "field_value line = (if 58 \<in> set line then after_colon line else line)"

text \<open>One round of the loop that fills the contact fields.\<close>

definition classify :: "address_record \<Rightarrow> ustring \<Rightarrow> address_record" where
  "classify r line =
     (let low = lower line in
      if prefix (ustr ''tel'') low then r\<lparr>tel := Some (field_value line)\<rparr>
      else if prefix (ustr ''email'') low then r\<lparr>email := Some (field_value line)\<rparr>
      else if prefix (ustr ''site'') low \<or> contains (ustr ''http'') low \<or> prefix (ustr ''www'') low
        then r\<lparr>site := Some (field_value line)\<rparr>
      else r)"

text \<open>The test of the list comprehension that builds \<open>addr\<close>.\<close>

definition addr_candidate :: "ustring \<Rightarrow> bool" where
  "addr_candidate l \<longleftrightarrow>
     \<not> (prefix (ustr ''tel'') (lower l) \<or> prefix (ustr ''email'') (lower l) \<or>
        prefix (ustr ''site'') (lower l))"

fun join :: "ustring \<Rightarrow> ustring list \<Rightarrow> ustring" where
  "join sep [] = []"
| "join sep [l] = l"
| "join sep (l # ls) = l @ sep @ join sep ls"

definition nth_opt :: "'a list \<Rightarrow> nat \<Rightarrow> 'a option" where
  "nth_opt xs i = (if i < length xs then Some (xs ! i) else None)"

definition split_address_block :: "ustring option \<Rightarrow> address_record" where
  "split_address_block x =
     (case x of
        None \<Rightarrow> empty_address
      | Some s \<Rightarrow>
          let lines = filter (\<lambda>l. l \<noteq> []) (map strip (splitlines s)) in
          if lines = [] then empty_address
          else
            let result = foldl classify (empty_address\<lparr>raw := Some (join (ustr '' | '') lines)\<rparr>) lines;
                addr = filter addr_candidate lines
            in result\<lparr>name := nth_opt addr 0, addr_line1 := nth_opt addr 1,
                      addr_line2 := nth_opt addr 2,
                      city_state_postal_country := nth_opt addr 3\<rparr>)"

section \<open>Flattening an annotation record\<close>

text \<open>
  A value read by \<open>json.load\<close>. A dictionary keeps its items in order and has each key once.
  What \<open>str\<close> makes of a value that is not a dictionary is a parameter of
  \<open>extract_text_fields\<close>.
\<close>

datatype json =
    JNull | JBool bool | JInt int | JFloat rat | JStr ustring
  | JList "json list" | JDict "(ustring \<times> json) list"

fun flat_value :: "(json \<Rightarrow> ustring) \<Rightarrow> json \<Rightarrow> json" where
  "flat_value py_str (JDict d) = (case map_of d (ustr ''text'') of Some v \<Rightarrow> v | None \<Rightarrow> JStr [])"
| "flat_value py_str v = JStr (py_str v)"

definition extract_text_fields :: "(json \<Rightarrow> ustring) \<Rightarrow> (ustring \<times> json) list \<Rightarrow> (ustring \<times> json) list" where
  "extract_text_fields py_str invoice_json =
     foldl (\<lambda>flat (key, v). AList.update key (flat_value py_str v) flat) [] invoice_json"

section \<open>The cleaning pipeline\<close>

text \<open>
  A data frame is its number of rows and its columns in order, each a label and one cell per
  row; the rows are numbered from 0, as \<open>read_csv\<close> numbers them. A cell is missing (\<open>None\<close>
  or NaN), a text or a number. \<open>cell_text\<close> is what the parsers see of a cell: nothing for a
  missing one, else its \<open>str\<close>, which for a number is the parameter \<open>fs\<close>.
\<close>

datatype cell = NA | Str ustring | Num rat

type_synonym cols = "(ustring \<times> cell list) list"

record frame =
  nrows :: nat
  columns :: cols

datatype error = ValueError

definition wf_frame :: "frame \<Rightarrow> bool" where
  "wf_frame df \<longleftrightarrow> distinct (map fst (columns df)) \<and>
     list_all (\<lambda>(k, vs). length vs = nrows df) (columns df)"

definition cell_text :: "(rat \<Rightarrow> ustring) \<Rightarrow> cell \<Rightarrow> ustring option" where
  "cell_text fs c = (case c of NA \<Rightarrow> None | Str s \<Rightarrow> Some s | Num r \<Rightarrow> Some (fs r))"

definition text_cell :: "ustring option \<Rightarrow> cell" where
  "text_cell x = (case x of None \<Rightarrow> NA | Some s \<Rightarrow> Str s)"

definition amount_cell :: "rat option \<Rightarrow> cell" where
  "amount_cell x = (case x of None \<Rightarrow> NA | Some a \<Rightarrow> Num a)"

definition amount_map :: "(ustring \<times> ustring) list" where
  "amount_map = [(ustr ''TOTAL'', ustr ''TOTAL_AMOUNT''), (ustr ''SUB_TOTAL'', ustr ''SUB_TOTAL_AMOUNT''),
     (ustr ''TAX'', ustr ''TAX_AMOUNT''), (ustr ''DISCOUNT'', ustr ''DISCOUNT_AMOUNT'')]"

text \<open>
  One round of the loop over \<open>amount_map\<close>: the state is the columns and
  \<open>currency_series\<close>.
\<close>

definition amount_step ::
  "(rat \<Rightarrow> ustring) \<Rightarrow> nat \<Rightarrow> cols \<times> ustring option list list \<Rightarrow> ustring \<times> ustring
     \<Rightarrow> cols \<times> ustring option list list" where
  "amount_step fs n st p =
     (case st of (cs, series) \<Rightarrow> case p of (src, tgt) \<Rightarrow>
        (case map_of cs src of
           Some vs \<Rightarrow>
             let parsed = map (\<lambda>c. parse_amount_and_currency (cell_text fs c)) vs
             in (AList.update tgt (map (\<lambda>x. amount_cell (fst x)) parsed) cs,
                 series @ [map snd parsed])
         | None \<Rightarrow> (AList.update tgt (replicate n NA) cs, series)))"

text \<open>
  \<open>cur_df.bfill(axis=1).iloc[:, 0]\<close>: in every row, the first value that is not missing,
  the series taken from left to right.
\<close>

fun bfill_first :: "'a option list list \<Rightarrow> 'a option list" where
  "bfill_first [] = []"
| "bfill_first [s] = s"
| "bfill_first (s # ss) =
     map (\<lambda>(a, b). case a of Some v \<Rightarrow> Some v | None \<Rightarrow> b) (zip s (bfill_first ss))"

definition date_step :: "(rat \<Rightarrow> ustring) \<Rightarrow> ustring \<Rightarrow> ustring \<Rightarrow> cols \<Rightarrow> cols" where
  "date_step fs src tgt cs =
     (case map_of cs src of
        Some vs \<Rightarrow> AList.update tgt (map (\<lambda>c. text_cell (normalize_date (cell_text fs c))) vs) cs
      | None \<Rightarrow> cs)"

definition address_fields :: "(string \<times> (address_record \<Rightarrow> ustring option)) list" where
  "address_fields =
     [(''name'', name), (''addr_line1'', addr_line1), (''addr_line2'', addr_line2),
      (''city_state_postal_country'', city_state_postal_country), (''tel'', tel),
      (''email'', email), (''site'', site), (''raw'', raw)]"

text \<open>
  \<open>pd.json_normalize(...).add_prefix(prefix)\<close> on the address records of a column: one
  column for each field, and no column at all for a frame without rows.
\<close>

definition address_columns :: "string \<Rightarrow> address_record list \<Rightarrow> cols" where
  "address_columns pre recs =
     (if recs = [] then []
      else map (\<lambda>(f, get). (ustr (pre @ f), map (\<lambda>r. text_cell (get r)) recs)) address_fields)"

text \<open>\<open>pd.concat([df, ...], axis=1)\<close> puts the new columns behind the old ones, whatever their labels.\<close>

definition address_step :: "(rat \<Rightarrow> ustring) \<Rightarrow> ustring \<Rightarrow> string \<Rightarrow> cols \<Rightarrow> cols" where
  "address_step fs src pre cs =
     (case map_of cs src of
        Some vs \<Rightarrow> cs @ address_columns pre (map (\<lambda>c. split_address_block (cell_text fs c)) vs)
      | None \<Rightarrow> cs)"

text \<open>
  \<open>df.reindex(sorted(df.columns), axis=1)\<close>: the columns in the order of their labels;
  pandas raises \<open>ValueError\<close> when a label stands twice.
\<close>

definition reindex_sorted :: "nat \<Rightarrow> cols \<Rightarrow> error + frame" where
  "reindex_sorted n cs =
     (if distinct (map fst cs) then Inr \<lparr>nrows = n, columns = sort_key fst cs\<rparr>
      else Inl ValueError)"

definition clean_columns :: "(rat \<Rightarrow> ustring) \<Rightarrow> frame \<Rightarrow> cols" where
  "clean_columns fs df =
     (let n = nrows df;
          cs1 = foldl (\<lambda>cs col. AList.delete col cs) (columns df) [ustr ''OTHER'', ustr ''LOGO''];
          (cs2, currency_series) = foldl (amount_step fs n) (cs1, []) amount_map;
          cs3 = AList.update (ustr ''CURRENCY'')
                  (if currency_series \<noteq> [] then map text_cell (bfill_first currency_series)
                   else replicate n NA) cs2;
          cs4 = date_step fs (ustr ''DATE'') (ustr ''DATE_NORM'') cs3;
          cs5 = date_step fs (ustr ''DUE_DATE'') (ustr ''DUE_DATE_NORM'') cs4;
          cs6 = address_step fs (ustr ''BUYER'') ''BUYER_'' cs5
      in address_step fs (ustr ''SELLER_ADDRESS'') ''SELLER_'' cs6)"

definition clean_template_df :: "(rat \<Rightarrow> ustring) \<Rightarrow> frame \<Rightarrow> error + frame" where
  "clean_template_df fs df = reindex_sorted (nrows df) (clean_columns fs df)"

text \<open>What a caller sees of a result: a column by its label, if the call returned and has it.\<close>

definition result_column :: "error + frame \<Rightarrow> ustring \<Rightarrow> cell list option" where
  "result_column res k = (case res of Inl e \<Rightarrow> None | Inr out \<Rightarrow> map_of (columns out) k)"

definition result_labels :: "error + frame \<Rightarrow> ustring list option" where
  "result_labels res = (case res of Inl e \<Rightarrow> None | Inr out \<Rightarrow> Some (map fst (columns out)))"

section \<open>Evaluation\<close>

lemmas text_defs = ustr_def is_space_def is_digit_def is_upper_def is_lower_def is_word_def
  to_upper_def to_lower_def upper_def lower_def strip_def clean_spaces_def

lemmas amount_defs = opt_sign_def digits_1_3_def digits_many_def opt_fraction_def
  grouped_number_def plain_number_def match_number_def digits_val_def py_float_def
  currency_codes_def code_at_def currency_map_def detect_currency_def paren_minus_at_def
  is_discount_def parse_amount_and_currency_def

section \<open>The numeric token of an amount\<close>



text \<open>
  C1. The amount is the value of the last numeric token of the normalized text, and a text
  whose only number is \<open>1234.56\<close> should give 1234.56. It does not: the first branch of the
  pattern takes at most three digits and then needs a comma to go on, so \<open>1234.56\<close> is
  found as the two tokens \<open>123\<close> and \<open>4.56\<close>, and the amount is 4.56.
\<close>

theorem ungrouped_number_is_cut:
  "findall_numbers (ustr ''1234.56'') = [ustr ''123'', ustr ''4.56''] \<and>
   parse_amount_and_currency (Some (ustr ''1234.56'')) = (Some (456 / 100), None)"
  by (simp add: text_defs amount_defs)

section \<open>Texts without digits\<close>









section \<open>Discount marks and the sign of the amount\<close>

























section \<open>The flat row\<close>

lemma map_of_flat_fold:
  "map_of (foldl (\<lambda>flat (key, v). AList.update key (f v) flat) acc xs) =
   map_of acc ++ map_of (rev (map (\<lambda>(k, v). (k, f v)) xs))"
proof (induction xs arbitrary: acc)
  case Nil
  then show ?case by simp
next
  case (Cons x xs)
  obtain k v where x: "x = (k, v)" by (cases x)
  let ?M = "map_of (rev (map (\<lambda>(k, v). (k, f v)) xs))"
  have "map_of (foldl (\<lambda>flat (key, v). AList.update key (f v) flat) acc (x # xs)) =
        map_of (AList.update k (f v) acc) ++ ?M"
    using Cons.IH [of "AList.update k (f v) acc"] by (simp add: x)
  also have "map_of (AList.update k (f v) acc) = map_of acc ++ [k \<mapsto> f v]"
    unfolding update_conv' by simp
  also have "map_of acc ++ [k \<mapsto> f v] ++ ?M = map_of acc ++ ([k \<mapsto> f v] ++ ?M)"
    by (simp only: map_add_assoc)
  also have "[k \<mapsto> f v] ++ ?M = map_of (rev (map (\<lambda>(k, v). (k, f v)) (x # xs)))"
    by (simp add: x)
  finally show ?case .
qed

lemma map_of_mapped:
  "distinct (map fst xs) \<Longrightarrow> (k, v) \<in> set xs \<Longrightarrow>
   map_of (rev (map (\<lambda>(k, v). (k, f v)) xs)) k = Some (f v)"
proof -
  assume d: "distinct (map fst xs)" and m: "(k, v) \<in> set xs"
  have "map fst (rev (map (\<lambda>(k, v). (k, f v)) xs)) = rev (map fst xs)"
    by (simp add: rev_map case_prod_beta comp_def)
  then have "distinct (map fst (rev (map (\<lambda>(k, v). (k, f v)) xs)))"
    using d by simp
  moreover have "(k, f v) \<in> set (rev (map (\<lambda>(k, v). (k, f v)) xs))"
    using m by force
  ultimately show ?thesis by (rule map_of_is_SomeI)
qed

lemma extract_text_fields_lookup:
  assumes "distinct (map fst invoice_json)" and "(k, v) \<in> set invoice_json"
  shows "map_of (extract_text_fields py_str invoice_json) k = Some (flat_value py_str v)"
  unfolding extract_text_fields_def map_of_flat_fold
  using map_of_mapped [OF assms, of "flat_value py_str"] by (simp add: map_add_def)

text \<open>
  C10. For a key of the record whose value is a mapping without a \<open>text\<close> field, the flat
  row has the empty string; a mapping with such a field gives the field as it is, and only a
  value that is not a mapping is passed through \<open>str\<close>.
\<close>

theorem mapping_without_text_is_blank:
  assumes "distinct (map fst invoice_json)" and "(k, v) \<in> set invoice_json"
  shows "(\<forall>d. v = JDict d \<and> map_of d (ustr ''text'') = None \<longrightarrow>
            map_of (extract_text_fields py_str invoice_json) k = Some (JStr [])) \<and>
         (\<forall>d t. v = JDict d \<and> map_of d (ustr ''text'') = Some t \<longrightarrow>
            map_of (extract_text_fields py_str invoice_json) k = Some t) \<and>
         ((\<forall>d. v \<noteq> JDict d) \<longrightarrow>
            map_of (extract_text_fields py_str invoice_json) k = Some (JStr (py_str v)))"
  unfolding extract_text_fields_lookup [OF assms]
  by (cases v) auto

text \<open>An annotation that has only a bounding box gives the empty string.\<close>

theorem mapping_without_text_is_blank_witness:
  "map_of (extract_text_fields (\<lambda>v. [])
      [(ustr ''A'', JDict [(ustr ''bbox'', JList [JInt 0, JInt 1])]), (ustr ''B'', JNull)]) (ustr ''A'')
   = Some (JStr [])"
proof -
  let ?inv = "[(ustr ''A'', JDict [(ustr ''bbox'', JList [JInt 0, JInt 1])]), (ustr ''B'', JNull)]"
  have d: "distinct (map fst ?inv)" by (simp add: ustr_def)
  have m: "(ustr ''A'', JDict [(ustr ''bbox'', JList [JInt 0, JInt 1])]) \<in> set ?inv" by simp
  have t: "map_of [(ustr ''bbox'', JList [JInt 0, JInt 1])] (ustr ''text'') = None" by (simp add: ustr_def)
  from mapping_without_text_is_blank [OF d m, of "\<lambda>v. []"] t show ?thesis by blast
qed

section \<open>Contact lines of an address block\<close>

text \<open>
  C2. A line that the loop classifies as a contact line should not be an address line. The
  loop takes a line that starts with \<open>www\<close> (or holds \<open>http\<close>) for the site, but
  the filter that builds the address list only leaves out the lines that start with
  \<open>tel\<close>, \<open>email\<close> or \<open>site\<close>: such a line is both the site and an address line.
\<close>

theorem www_line_is_address_line:
  "site (split_address_block (Some (ustr ''Acme Corp\<newline>www.acme.com''))) = Some (ustr ''www.acme.com'') \<and>
   addr_line1 (split_address_block (Some (ustr ''Acme Corp\<newline>www.acme.com''))) = Some (ustr ''www.acme.com'')"
  by (simp add: text_defs split_address_block_def splitlines_def is_linebreak_def classify_def
      field_value_def addr_candidate_def nth_opt_def empty_address_def Let_def)


section \<open>The date formats in their order\<close>








end
